theory Spec2Isabelle
  imports Main
begin

section \<open>Data model of the article-generation route\<close>

text \<open>
  The route handler reads \<^verbatim>\<open>posts.json\<close>, formats each unprocessed post, sends the
  formatted text to the generation service and appends the answers to
  \<^verbatim>\<open>articles.json\<close>. The TypeScript interfaces \<^verbatim>\<open>Reply\<close>, \<^verbatim>\<open>Comment\<close>, \<^verbatim>\<open>Post\<close> and
  \<^verbatim>\<open>GeneratedArticle\<close> are modelled with their declared field types: an optional
  field \<^verbatim>\<open>f?: T\<close> is a \<open>T option\<close>, with \<open>None\<close> for an absent field
  (\<^verbatim>\<open>undefined\<close>). Strings are ASCII strings.
\<close>

datatype Reply = Reply (reply_text: "string option") (reply_replies: "Reply list option")

record Comment =
  comment_text :: "string option"
  comment_replies :: "Reply list option"

record Post =
  post_title :: "string option"
  post_author :: "string option"
  post_text :: "string option"
  post_comments :: "Comment list option"

record GeneratedArticle =
  originalTitle :: string
  originalAuthor :: string
  generatedArticle :: string
  timestamp :: string

subsection \<open>JavaScript primitives used by the handler\<close>

text \<open>
  A JavaScript number that is used as a count or an index: \<open>None\<close> is \<^verbatim>\<open>NaN\<close>,
  \<open>Some n\<close> the integer \<open>n\<close>.
\<close>

type_synonym number = "int option"

text \<open>
  \<^verbatim>\<open>Array.prototype.slice(start, end)\<close>: a \<^verbatim>\<open>NaN\<close> bound counts as 0, a negative
  bound counts from the end of the array, and both bounds are clamped to the length.
\<close>

definition slice :: "number \<Rightarrow> number \<Rightarrow> 'a list \<Rightarrow> 'a list" where
  "slice start end' xs =
     (let len = int (length xs);
          relativeStart = (case start of None \<Rightarrow> 0 | Some s \<Rightarrow> s);
          k = (if relativeStart < 0 then max (len + relativeStart) 0 else min relativeStart len);
          relativeEnd = (case end' of None \<Rightarrow> 0 | Some e \<Rightarrow> e);
          final = (if relativeEnd < 0 then max (len + relativeEnd) 0 else min relativeEnd len)
      in take (nat (final - k)) (drop (nat k) xs))"

text \<open>Truthiness of an optional string: absent and empty strings are falsy.\<close>

definition truthy :: "string option \<Rightarrow> bool" where
  "truthy s = (case s of None \<Rightarrow> False | Some t \<Rightarrow> t \<noteq> [])"

text \<open>\<^verbatim>\<open>s || d\<close> for an optional string \<open>s\<close>.\<close>

definition or_else :: "string option \<Rightarrow> string \<Rightarrow> string" where
  "or_else s d = (case s of None \<Rightarrow> d | Some t \<Rightarrow> if t = [] then d else t)"

text \<open>A destructuring default \<^verbatim>\<open>{ f = d } = obj\<close>: it applies to an absent field only.\<close>

definition default_to :: "'a option \<Rightarrow> 'a \<Rightarrow> 'a" where
  "default_to v d = (case v of None \<Rightarrow> d | Some x \<Rightarrow> x)"

section \<open>The post formatter\<close>

text \<open>
  \<^verbatim>\<open>formatPostData\<close> builds the text by appending to \<^verbatim>\<open>formattedData\<close>; the two
  nested \<^verbatim>\<open>forEach\<close> loops are folds that thread the text built so far.
\<close>

definition replyLine :: "Reply \<Rightarrow> string" where
  "replyLine reply = ''> Reply: '' @ or_else (reply_text reply) '''' @ ''\<newline>\<newline>''"

definition commentLabel :: "Comment \<Rightarrow> string" where
  "commentLabel comment =
     ''**Comment by '' @ (if truthy (comment_text comment) then ''user'' else ''unknown'')
       @ ''**:\<newline>'' @ or_else (comment_text comment) '''' @ ''\<newline>\<newline>''"

definition topReplies :: "Reply list \<Rightarrow> Reply list" where
  "topReplies replies = slice (Some 0) (Some 2) replies"

definition topComments :: "Comment list \<Rightarrow> Comment list" where
  "topComments comments = slice (Some 0) (Some 5) comments"

definition formatComment :: "Comment \<Rightarrow> string \<Rightarrow> string" where
  "formatComment comment formattedData =
     (let formattedData1 = formattedData @ commentLabel comment
      in case comment_replies comment of
           None \<Rightarrow> formattedData1
         | Some replies \<Rightarrow>
             if length replies > 0
             then fold (\<lambda>reply acc. acc @ replyLine reply) (topReplies replies) formattedData1
             else formattedData1)"

definition postHeader :: "Post \<Rightarrow> string" where
  "postHeader post =
     ''# '' @ default_to (post_title post) '''' @ ''\<newline>\<newline>**Posted by ''
       @ default_to (post_author post) '''' @ ''**\<newline>\<newline>''
       @ default_to (post_text post) '''' @ ''\<newline>\<newline>''"

definition formatPostData :: "Post \<Rightarrow> string" where
  "formatPostData post =
     (let comments = default_to (post_comments post) [];
          formattedData = postHeader post
      in if length comments > 0
         then fold formatComment (topComments comments) (formattedData @ ''## Top Comments\<newline>\<newline>'')
         else formattedData)"

text \<open>
  The text that one shown comment contributes: its labelled block followed by the
  quoted lines of its shown replies.
\<close>

definition commentEntry :: "Comment \<Rightarrow> string" where
  "commentEntry comment =
     commentLabel comment
       @ concat (map replyLine (topReplies (default_to (comment_replies comment) [])))"

section \<open>Files, generation service and clock\<close>

text \<open>
  \<^verbatim>\<open>readPostsFile\<close> is declared to return \<^verbatim>\<open>Post | Post[]\<close>: the parsed document is
  one post object or an array of posts.
\<close>

datatype PostData = Single Post | Multiple "Post list"

text \<open>
  The state of \<^verbatim>\<open>articles.json\<close>: no such file, a file that cannot be read or parsed,
  or a file holding an array of articles, as the declared type
  \<^verbatim>\<open>GeneratedArticle[]\<close> of its content says and as the handler's own writes leave it.
\<close>

datatype ArticlesFile = Absent | Unreadable | Stored "GeneratedArticle list"

text \<open>
  Everything outside the handler that one request reads or changes.
  \<^item> \<open>posts_json\<close>: the parsed content of \<^verbatim>\<open>posts.json\<close>, \<open>None\<close> when reading or
    parsing it throws;
  \<^item> \<open>articles_json\<close>: the articles file; \<open>writable\<close>: whether
    \<^verbatim>\<open>fs.writeFileSync\<close> on it succeeds (a write that throws is taken to leave the
    file as it was);
  \<^item> \<open>completions k postData\<close>: what the generation service answers to the request
    number \<open>k\<close> (counted from 0) carrying \<open>postData\<close>, \<open>None\<close> when the call throws;
    the model name, the two instruction texts, the temperature and the token limit
    are the same in every request and are left out;
  \<^item> \<open>requests\<close>: the post texts sent to the service so far, oldest first;
  \<^item> \<open>clock k\<close>: the ISO string of the \<open>k\<close>-th reading of the clock, \<open>ticks\<close> the
    number of readings so far.
\<close>

record world =
  posts_json :: "PostData option"
  articles_json :: ArticlesFile
  writable :: bool
  completions :: "nat \<Rightarrow> string \<Rightarrow> string option"
  requests :: "string list"
  clock :: "nat \<Rightarrow> string"
  ticks :: nat

text \<open>A thrown \<^verbatim>\<open>Error\<close> with its message.\<close>

datatype error = Error (message: string)

definition readPostsFile :: "world \<Rightarrow> error + PostData" where
  "readPostsFile w =
     (case posts_json w of
        None \<Rightarrow> Inl (Error ''Failed to read posts file'')
      | Some postData \<Rightarrow> Inr postData)"

definition writeArticlesFile :: "GeneratedArticle list \<Rightarrow> world \<Rightarrow> error + world" where
  "writeArticlesFile articles w =
     (if writable w then Inr (w\<lparr>articles_json := Stored articles\<rparr>)
      else Inl (Error ''Failed to write articles file''))"

definition generateArticle :: "string \<Rightarrow> world \<Rightarrow> (error + string) \<times> world" where
  "generateArticle postData w =
     (let w' = w\<lparr>requests := requests w @ [postData]\<rparr>
      in case completions w (length (requests w)) postData of
           None \<Rightarrow> (Inl (Error ''Failed to generate article''), w')
         | Some content \<Rightarrow> (Inr content, w'))"

text \<open>\<^verbatim>\<open>new Date().toISOString()\<close>\<close>

definition now_iso :: "world \<Rightarrow> string \<times> world" where
  "now_iso w = (clock w (ticks w), w\<lparr>ticks := Suc (ticks w)\<rparr>)"

section \<open>Request parameters\<close>

text \<open>
  The two query parameters as \<^verbatim>\<open>url.searchParams.get\<close> returns them: \<open>None\<close> for a
  parameter that is not in the query string.
\<close>

record request =
  numPosts_param :: "string option"
  force_param :: "string option"

text \<open>
  \<^verbatim>\<open>parseInt(s, 10)\<close>: leading white space is skipped, one sign is read, then the
  longest run of decimal digits; no digit gives \<^verbatim>\<open>NaN\<close>. The white space is the
  ASCII part of the language's white space and line terminators.
\<close>

definition isWhiteSpace :: "char \<Rightarrow> bool" where
  "isWhiteSpace c = (c \<in> set [CHR 0x09, CHR 0x0A, CHR 0x0B, CHR 0x0C, CHR 0x0D, CHR 0x20])"

definition isDigit :: "char \<Rightarrow> bool" where
  "isDigit c = (c \<in> set ''0123456789'')"

definition digitValue :: "char \<Rightarrow> int" where
  "digitValue c = int (of_char c) - 48"

definition parseInt :: "string \<Rightarrow> number" where
  "parseInt inputString =
     (let S = dropWhile isWhiteSpace inputString;
          sign = (if S \<noteq> [] \<and> hd S = CHR ''-'' then - 1 else 1 :: int);
          S1 = (if S \<noteq> [] \<and> (hd S = CHR ''+'' \<or> hd S = CHR ''-'') then tl S else S);
          Z = takeWhile isDigit S1
      in if Z = [] then None
         else Some (sign * foldl (\<lambda>acc c. 10 * acc + digitValue c) 0 Z))"

text \<open>\<^verbatim>\<open>parseInt(url.searchParams.get('numPosts') || '3', 10)\<close>\<close>

definition numPosts :: "request \<Rightarrow> number" where
  "numPosts r = parseInt (or_else (numPosts_param r) ''3'')"

text \<open>\<^verbatim>\<open>url.searchParams.get('force') === 'true'\<close>\<close>

definition forceRegenerate :: "request \<Rightarrow> bool" where
  "forceRegenerate r = (force_param r = Some ''true'')"

section \<open>The trigger endpoint\<close>

text \<open>
  The shape test on the loaded document. An array parsed from JSON has no \<^verbatim>\<open>title\<close>
  and no \<^verbatim>\<open>text\<close> property, so for it both property tests are falsy and
  \<^verbatim>\<open>Array.isArray\<close> holds; for a post object the three branches are the source's.
\<close>

fun resolvePosts :: "PostData \<Rightarrow> Post list" where
  "resolvePosts (Single post) =
     (if truthy (post_title post) then [post]
      else if truthy (post_text post) then [post]
      else [post])"
| "resolvePosts (Multiple posts) = posts"

text \<open>
  The existing articles: read only when the file exists and regeneration is not
  forced; a read or parse failure is caught and leaves the empty array.
\<close>

definition existingArticles :: "request \<Rightarrow> world \<Rightarrow> GeneratedArticle list" where
  "existingArticles r w =
     (if articles_json w \<noteq> Absent \<and> \<not> forceRegenerate r
      then (case articles_json w of Stored articles \<Rightarrow> articles | _ \<Rightarrow> [])
      else [])"

text \<open>\<^verbatim>\<open>post.title || 'Untitled Post'\<close> and \<^verbatim>\<open>post.author || 'Unknown Author'\<close>\<close>

abbreviation resolvedTitle :: "Post \<Rightarrow> string" where
  "resolvedTitle post \<equiv> or_else (post_title post) ''Untitled Post''"

abbreviation resolvedAuthor :: "Post \<Rightarrow> string" where
  "resolvedAuthor post \<equiv> or_else (post_author post) ''Unknown Author''"

definition processedTitles :: "GeneratedArticle list \<Rightarrow> string set" where
  "processedTitles existing = set (map originalTitle existing)"

definition unprocessedPosts :: "GeneratedArticle list \<Rightarrow> Post list \<Rightarrow> Post list" where
  "unprocessedPosts existing posts =
     filter (\<lambda>post. resolvedTitle post \<notin> processedTitles existing) posts"

definition postsToProcess :: "request \<Rightarrow> GeneratedArticle list \<Rightarrow> Post list \<Rightarrow> Post list" where
  "postsToProcess r existing posts = slice (Some 0) (numPosts r) (unprocessedPosts existing posts)"

text \<open>
  The generation loop: \<open>newArticles\<close> is the array built so far; the first call that
  throws leaves the loop with the error.
\<close>

fun generateLoop :: "Post list \<Rightarrow> GeneratedArticle list \<Rightarrow> world
    \<Rightarrow> (error + GeneratedArticle list) \<times> world" where
  "generateLoop [] newArticles w = (Inr newArticles, w)"
| "generateLoop (post # rest) newArticles w =
     (let formattedPost = formatPostData post
      in case generateArticle formattedPost w of
           (Inl e, w1) \<Rightarrow> (Inl e, w1)
         | (Inr article, w1) \<Rightarrow>
             (case now_iso w1 of
                (stamp, w2) \<Rightarrow>
                  generateLoop rest
                    (newArticles @
                      [\<lparr>originalTitle = resolvedTitle post,
                        originalAuthor = resolvedAuthor post,
                        generatedArticle = article,
                        timestamp = stamp\<rparr>])
                    w2))"

text \<open>The JSON body and the status of a \<^verbatim>\<open>NextResponse\<close>.\<close>

datatype body =
    Success (message_of: string) (articles_of: "GeneratedArticle list")
  | Failure (error_of: string)

record response =
  status :: nat
  body :: body

text \<open>Decimal rendering of an array length inside a template string.\<close>

fun decimal :: "nat \<Rightarrow> string" where
  "decimal n = (if n < 10 then [''0123456789'' ! n]
                else decimal (n div 10) @ [''0123456789'' ! (n mod 10)])"

declare decimal.simps [simp del]

text \<open>The \<^verbatim>\<open>catch\<close> block at the request boundary.\<close>

definition caught :: "error \<Rightarrow> response" where
  "caught e =
     \<lparr>status = 500,
      body = Failure (if message e = [] then ''Failed to process posts'' else message e)\<rparr>"

definition GET :: "request \<Rightarrow> world \<Rightarrow> response \<times> world" where
  "GET r w =
     (case readPostsFile w of
        Inl e \<Rightarrow> (caught e, w)
      | Inr postData \<Rightarrow>
          (let posts = resolvePosts postData;
               existing = existingArticles r w;
               selected = postsToProcess r existing posts
           in if length selected = 0
              then (\<lparr>status = 200,
                     body = Success
                       ''No new posts to process. All posts have already been generated into articles.''
                       existing\<rparr>, w)
              else
                (case generateLoop selected [] w of
                   (Inl e, w1) \<Rightarrow> (caught e, w1)
                 | (Inr newArticles, w1) \<Rightarrow>
                     (let allArticles = existing @ newArticles
                      in case writeArticlesFile allArticles w1 of
                           Inl e \<Rightarrow> (caught e, w1)
                         | Inr w2 \<Rightarrow>
                             (\<lparr>status = 200,
                               body = Success
                                 (''Generated '' @ decimal (length newArticles)
                                    @ '' new articles. Total: '' @ decimal (length allArticles))
                                 allArticles\<rparr>, w2)))))"

section \<open>The resolution policy as the specification words it\<close>

text \<open>
  In order: an object with a non-empty \<open>title\<close> is one post; else an object that
  has a \<open>text\<close> is one post; else a sequence is used as it is; else the whole
  object is wrapped as a single-element sequence. A sequence has neither field.
\<close>

fun resolution_policy :: "PostData \<Rightarrow> Post list" where
  "resolution_policy (Single post) =
     (if post_title post \<noteq> None \<and> post_title post \<noteq> Some [] then [post]
      else if post_text post \<noteq> None then [post]
      else [post])"
| "resolution_policy (Multiple posts) = posts"

section \<open>Vocabulary of the statements\<close>

text \<open>
  \<open>batch r w postData\<close> is the array \<^verbatim>\<open>postsToProcess\<close> of a request \<open>r\<close> made in
  world \<open>w\<close> whose posts file holds \<open>postData\<close>.
  For a batch \<open>selected\<close> that the loop starts on in world \<open>w\<close>:
  \<open>answer w selected i\<close> is what the service answers to the call for the \<open>i\<close>-th
  post of the batch (the calls before it having returned), and
  \<open>newArticle w selected i\<close> is the record the loop pushes for that post when the
  answer is a text.
\<close>

definition batch :: "request \<Rightarrow> world \<Rightarrow> PostData \<Rightarrow> Post list" where
  "batch r w postData = postsToProcess r (existingArticles r w) (resolvePosts postData)"

definition answer :: "world \<Rightarrow> Post list \<Rightarrow> nat \<Rightarrow> string option" where
  "answer w selected i =
     completions w (length (requests w) + i) (formatPostData (selected ! i))"

definition newArticle :: "world \<Rightarrow> Post list \<Rightarrow> nat \<Rightarrow> GeneratedArticle" where
  "newArticle w selected i =
     \<lparr>originalTitle = resolvedTitle (selected ! i),
      originalAuthor = resolvedAuthor (selected ! i),
      generatedArticle = default_to (answer w selected i) [],
      timestamp = clock w (ticks w + i)\<rparr>"

subsection \<open>Sample data\<close>

text \<open>
  Posts, a generation service that answers every call with a text naming the number
  of the call, a clock, and a world around them, for evaluating the handler.
\<close>

definition post_a :: Post where
  "post_a = \<lparr>post_title = Some ''A'', post_author = Some ''ann'',
             post_text = Some ''alpha'', post_comments = None\<rparr>"

definition post_b :: Post where
  "post_b = \<lparr>post_title = Some ''B'', post_author = Some ''bob'',
             post_text = Some ''beta'', post_comments = None\<rparr>"

definition post_c :: Post where
  "post_c = \<lparr>post_title = Some ''C'', post_author = None,
             post_text = Some ''gamma'', post_comments = None\<rparr>"

definition post_untitled :: "string \<Rightarrow> Post" where
  "post_untitled t = \<lparr>post_title = None, post_author = None,
             post_text = Some t, post_comments = None\<rparr>"

definition article_a :: GeneratedArticle where
  "article_a = \<lparr>originalTitle = ''A'', originalAuthor = ''ann'',
                generatedArticle = ''# Alpha'', timestamp = ''2025-01-01T00:00:00.000Z''\<rparr>"

definition service :: "nat \<Rightarrow> string \<Rightarrow> string option" where
  "service k postData = Some (''article '' @ decimal k)"

definition sample_world :: "PostData \<Rightarrow> ArticlesFile \<Rightarrow> world" where
  "sample_world postData file =
     \<lparr>posts_json = Some postData, articles_json = file, writable = True,
      completions = service, requests = [],
      clock = (\<lambda>k. ''t'' @ decimal k), ticks = 0\<rparr>"

definition plain_request :: "string option \<Rightarrow> request" where
  "plain_request n = \<lparr>numPosts_param = n, force_param = None\<rparr>"

definition force_request :: "string option \<Rightarrow> request" where
  "force_request n = \<lparr>numPosts_param = n, force_param = Some ''true''\<rparr>"

section \<open>The formatter shows a bounded part of the comment tree\<close>


lemma slice_from_start:
  "slice (Some 0) e xs =
     (case e of None \<Rightarrow> []
      | Some n \<Rightarrow> if n < 0 then take (length xs - nat (- n)) xs else take (nat n) xs)"
  by (cases e) (auto simp: slice_def Let_def min_def max_def nat_diff_distrib' intro: arg_cong2[where f=take])

lemma topComments_take: "topComments comments = take 5 comments"
  by (simp add: topComments_def slice_from_start)

lemma topReplies_take: "topReplies replies = take 2 replies"
  by (simp add: topReplies_def slice_from_start)

lemma fold_append_concat: "fold (\<lambda>x acc. acc @ f x) xs s = s @ concat (map f xs)"
  by (induction xs arbitrary: s) simp_all

lemma formatComment_entry: "formatComment comment s = s @ commentEntry comment"
  by (cases "comment_replies comment")
     (simp_all add: formatComment_def commentEntry_def default_to_def fold_append_concat topReplies_take Let_def)

lemma fold_formatComment: "fold formatComment cs s = s @ concat (map commentEntry cs)"
  by (induction cs arbitrary: s) (simp_all add: formatComment_entry)

lemma formatPostData_entries:
  "formatPostData post =
     postHeader post @
       (if default_to (post_comments post) [] = [] then []
        else ''## Top Comments\<newline>\<newline>''
               @ concat (map commentEntry (topComments (default_to (post_comments post) []))))"
  by (simp add: formatPostData_def Let_def fold_formatComment)

text \<open>
  C6. The formatted text is the header followed, when the post has comments, by the
  section heading and one entry for each of the first five comments and no other; an
  entry is the comment's labelled block followed by the quoted lines of its first two
  replies and no other; a reply's own replies do not reach the text. A post with ten
  comments of five replies each therefore gives exactly five entries with exactly two
  reply lines each.
\<close>

theorem formatPostData_bounded:
  "formatPostData post =
     postHeader post @
       (if default_to (post_comments post) [] = [] then []
        else ''## Top Comments\<newline>\<newline>''
               @ concat (map commentEntry (topComments (default_to (post_comments post) []))))
   \<and> topComments (default_to (post_comments post) []) = take 5 (default_to (post_comments post) [])
   \<and> length (topComments (default_to (post_comments post) [])) \<le> 5
   \<and> (\<forall>c. commentEntry c =
            commentLabel c @ concat (map replyLine (topReplies (default_to (comment_replies c) [])))
          \<and> topReplies (default_to (comment_replies c) []) = take 2 (default_to (comment_replies c) [])
          \<and> length (topReplies (default_to (comment_replies c) [])) \<le> 2)
   \<and> (\<forall>t deeper. replyLine (Reply t deeper) = replyLine (Reply t None))
   \<and> (length (default_to (post_comments post) []) = 10
        \<and> (\<forall>c \<in> set (default_to (post_comments post) []).
              length (default_to (comment_replies c) []) = 5)
      \<longrightarrow> length (topComments (default_to (post_comments post) [])) = 5
          \<and> (\<forall>c \<in> set (topComments (default_to (post_comments post) [])).
                length (topReplies (default_to (comment_replies c) [])) = 2))"
proof -
  have deep: "\<forall>c \<in> set (take 5 cs). length (take 2 (default_to (comment_replies c) [])) = 2"
    if "\<forall>c \<in> set cs. length (default_to (comment_replies c) []) = 5" for cs :: "Comment list"
    using that by (auto dest: in_set_takeD)
  show ?thesis
    using deep [of "default_to (post_comments post) []"]
    by (simp add: formatPostData_entries topComments_take topReplies_take commentEntry_def
        replyLine_def)
qed

theorem formatPostData_bounded_witness:
  "length (default_to (post_comments
       \<lparr>post_title = Some ''T'', post_author = Some ''ann'', post_text = Some ''body'',
        post_comments = Some (replicate 10
          \<lparr>comment_text = Some ''hi'',
           comment_replies = Some (replicate 5
             (Reply (Some ''re'') (Some [Reply (Some ''deep'') None])))\<rparr>)\<rparr>) []) = 10
   \<and> length (topComments (default_to (post_comments
       \<lparr>post_title = Some ''T'', post_author = Some ''ann'', post_text = Some ''body'',
        post_comments = Some (replicate 10
          \<lparr>comment_text = Some ''hi'',
           comment_replies = Some (replicate 5
             (Reply (Some ''re'') (Some [Reply (Some ''deep'') None])))\<rparr>)\<rparr>) [])) = 5
   \<and> formatPostData
       \<lparr>post_title = Some ''T'', post_author = Some ''ann'', post_text = Some ''body'',
        post_comments = Some (replicate 10
          \<lparr>comment_text = Some ''hi'',
           comment_replies = Some (replicate 5
             (Reply (Some ''re'') (Some [Reply (Some ''deep'') None])))\<rparr>)\<rparr>
     = ''# T\<newline>\<newline>**Posted by ann**\<newline>\<newline>body\<newline>\<newline>## Top Comments\<newline>\<newline>''
       @ concat (replicate 5
           ''**Comment by user**:\<newline>hi\<newline>\<newline>> Reply: re\<newline>\<newline>> Reply: re\<newline>\<newline>'')"
  using formatPostData_bounded [of
       "\<lparr>post_title = Some ''T'', post_author = Some ''ann'', post_text = Some ''body'',
        post_comments = Some (replicate 10
          \<lparr>comment_text = Some ''hi'',
           comment_replies = Some (replicate 5
             (Reply (Some ''re'') (Some [Reply (Some ''deep'') None])))\<rparr>)\<rparr>"]
  by (simp add: default_to_def postHeader_def commentEntry_def commentLabel_def replyLine_def
      truthy_def or_else_def topComments_take topReplies_take numeral_eq_Suc)

section \<open>The generation loop\<close>

lemma generateLoop_success:
  "\<forall>i<length ps. answer w ps i \<noteq> None \<Longrightarrow>
   generateLoop ps acc w =
     (Inr (acc @ map (newArticle w ps) [0..<length ps]),
      w\<lparr>requests := requests w @ map formatPostData ps, ticks := ticks w + length ps\<rparr>)"
proof (induction ps arbitrary: acc w)
  case Nil
  then show ?case by simp
next
  case (Cons p ps)
  let ?w2 = "w\<lparr>requests := requests w @ [formatPostData p], ticks := Suc (ticks w)\<rparr>"
  from Cons.prems obtain content where first: "completions w (length (requests w)) (formatPostData p) = Some content"
    by (fastforce simp: answer_def)
  have shift_answer: "answer ?w2 ps i = answer w (p # ps) (Suc i)" for i
    by (simp add: answer_def)
  have shift_article: "newArticle ?w2 ps i = newArticle w (p # ps) (Suc i)" for i
    by (simp add: newArticle_def answer_def)
  have rest: "\<forall>i<length ps. answer ?w2 ps i \<noteq> None"
    using Cons.prems by (auto simp: shift_answer)
  have head: "newArticle w (p # ps) 0 =
      \<lparr>originalTitle = resolvedTitle p, originalAuthor = resolvedAuthor p,
       generatedArticle = content, timestamp = clock w (ticks w)\<rparr>"
    using first by (simp add: newArticle_def answer_def default_to_def)
  have split: "map (newArticle w (p # ps)) [0..<Suc (length ps)] =
      newArticle w (p # ps) 0 # map (newArticle ?w2 ps) [0..<length ps]"
    by (simp add: upt_conv_Cons map_Suc_upt [symmetric] shift_article del: upt_Suc)
  show ?case
    using first Cons.IH [OF rest]
    by (simp add: generateArticle_def now_iso_def Let_def split head del: upt_Suc)
qed

lemma generateLoop_failure:
  "j < length ps \<Longrightarrow> answer w ps j = None \<Longrightarrow> \<forall>i<j. answer w ps i \<noteq> None \<Longrightarrow>
   generateLoop ps acc w =
     (Inl (Error ''Failed to generate article''),
      w\<lparr>requests := requests w @ map formatPostData (take (Suc j) ps), ticks := ticks w + j\<rparr>)"
proof (induction ps arbitrary: j acc w)
  case Nil
  then show ?case by simp
next
  case (Cons p ps)
  let ?w2 = "w\<lparr>requests := requests w @ [formatPostData p], ticks := Suc (ticks w)\<rparr>"
  have shift_answer: "answer ?w2 ps i = answer w (p # ps) (Suc i)" for i
    by (simp add: answer_def)
  show ?case
  proof (cases j)
    case 0
    with Cons.prems show ?thesis
      by (simp add: generateArticle_def answer_def Let_def)
  next
    case (Suc k)
    from Cons.prems Suc obtain content where
      first: "completions w (length (requests w)) (formatPostData p) = Some content"
      by (fastforce simp: answer_def)
    have "k < length ps" "answer ?w2 ps k = None" "\<forall>i<k. answer ?w2 ps i \<noteq> None"
      using Cons.prems Suc by (auto simp: shift_answer)
    from Cons.IH [OF this] first Suc show ?thesis
      by (simp add: generateArticle_def now_iso_def Let_def)
  qed
qed

section \<open>Outcomes of a request\<close>

lemma first_failure:
  "j < length ps \<Longrightarrow> answer w ps j = None \<Longrightarrow>
   \<exists>k\<le>j. answer w ps k = None \<and> (\<forall>i<k. answer w ps i \<noteq> None)"
proof (induction j rule: less_induct)
  case (less j)
  show ?case
  proof (cases "\<forall>i<j. answer w ps i \<noteq> None")
    case True
    with less.prems show ?thesis by blast
  next
    case False
    then obtain i where "i < j" "answer w ps i = None" by blast
    with less.IH [of i] less.prems obtain k where
      "k \<le> i" "answer w ps k = None" "\<forall>i<k. answer w ps i \<noteq> None"
      by (meson less_trans)
    with \<open>i < j\<close> show ?thesis
      by (meson le_trans less_imp_le_nat)
  qed
qed

lemma GET_read_failure:
  "posts_json w = None \<Longrightarrow>
   GET r w = (\<lparr>status = 500, body = Failure ''Failed to read posts file''\<rparr>, w)"
  by (simp add: GET_def readPostsFile_def caught_def)

lemma GET_nothing_selected:
  "posts_json w = Some d \<Longrightarrow> batch r w d = [] \<Longrightarrow>
   GET r w =
     (\<lparr>status = 200,
       body = Success
         ''No new posts to process. All posts have already been generated into articles.''
         (existingArticles r w)\<rparr>, w)"
  by (simp add: GET_def readPostsFile_def batch_def Let_def)

lemma GET_generation_failure:
  "posts_json w = Some d \<Longrightarrow> j < length (batch r w d) \<Longrightarrow>
   answer w (batch r w d) j = None \<Longrightarrow> \<forall>i<j. answer w (batch r w d) i \<noteq> None \<Longrightarrow>
   GET r w =
     (\<lparr>status = 500, body = Failure ''Failed to generate article''\<rparr>,
      w\<lparr>requests := requests w @ map formatPostData (take (Suc j) (batch r w d)),
        ticks := ticks w + j\<rparr>)"
proof -
  assume d: "posts_json w = Some d" and j: "j < length (batch r w d)"
    and fails: "answer w (batch r w d) j = None"
    and before: "\<forall>i<j. answer w (batch r w d) i \<noteq> None"
  have nonempty: "batch r w d \<noteq> []" using j by auto
  show ?thesis
    using d nonempty generateLoop_failure [OF j fails before, of "[]"]
    by (simp add: GET_def readPostsFile_def batch_def [symmetric] Let_def caught_def)
qed

lemma GET_generated:
  "posts_json w = Some d \<Longrightarrow> batch r w d \<noteq> [] \<Longrightarrow>
   \<forall>i<length (batch r w d). answer w (batch r w d) i \<noteq> None \<Longrightarrow>
   GET r w =
     (if writable w
      then (\<lparr>status = 200,
             body = Success
               (''Generated '' @ decimal (length (batch r w d)) @ '' new articles. Total: ''
                  @ decimal (length (existingArticles r w) + length (batch r w d)))
               (existingArticles r w
                  @ map (newArticle w (batch r w d)) [0..<length (batch r w d)])\<rparr>,
            w\<lparr>requests := requests w @ map formatPostData (batch r w d),
              ticks := ticks w + length (batch r w d),
              articles_json := Stored (existingArticles r w
                  @ map (newArticle w (batch r w d)) [0..<length (batch r w d)])\<rparr>)
      else (\<lparr>status = 500, body = Failure ''Failed to write articles file''\<rparr>,
            w\<lparr>requests := requests w @ map formatPostData (batch r w d),
              ticks := ticks w + length (batch r w d)\<rparr>))"
proof -
  assume d: "posts_json w = Some d" and nonempty: "batch r w d \<noteq> []"
    and ok: "\<forall>i<length (batch r w d). answer w (batch r w d) i \<noteq> None"
  show ?thesis
    using d nonempty generateLoop_success [OF ok, of "[]"]
    by (simp add: GET_def readPostsFile_def batch_def [symmetric] Let_def caught_def
        writeArticlesFile_def)
qed

section \<open>A failing generation call\<close>

text \<open>The definitions that evaluating a request on sample data unfolds.\<close>

lemmas eval_defs =
  batch_def postsToProcess_def unprocessedPosts_def processedTitles_def existingArticles_def
  forceRegenerate_def numPosts_def parseInt_def isWhiteSpace_def isDigit_def digitValue_def
  slice_def or_else_def default_to_def truthy_def answer_def newArticle_def
  sample_world_def plain_request_def service_def post_a_def post_b_def post_c_def
  post_untitled_def article_a_def Let_def

text \<open>
  C3. When the service call for some post of the batch fails, the request stops at the
  first failing call: the requests sent are those for the posts up to and including
  that one and no later one, the articles file is what it was before the request, and
  the response has status 500 and the body \<^verbatim>\<open>{success: false, error: 'Failed to generate article'}\<close>,
  whatever the cause of the failure.
\<close>

theorem generation_failure_aborts:
  assumes "posts_json w = Some d"
    and "j < length (batch r w d)"
    and "answer w (batch r w d) j = None"
  shows "\<exists>k\<le>j. answer w (batch r w d) k = None
           \<and> (\<forall>i<k. answer w (batch r w d) i \<noteq> None)
           \<and> GET r w =
               (\<lparr>status = 500, body = Failure ''Failed to generate article''\<rparr>,
                w\<lparr>requests := requests w @ map formatPostData (take (Suc k) (batch r w d)),
                  ticks := ticks w + k\<rparr>)
           \<and> articles_json (snd (GET r w)) = articles_json w"
proof -
  from first_failure [OF assms(2,3)] obtain k where
    k: "k \<le> j" "answer w (batch r w d) k = None" "\<forall>i<k. answer w (batch r w d) i \<noteq> None"
    by blast
  with assms(2) have "k < length (batch r w d)" by simp
  from GET_generation_failure [OF assms(1) this k(2,3)] k show ?thesis
    by auto
qed

theorem generation_failure_aborts_witness:
  "posts_json ((sample_world (Multiple [post_a, post_b, post_c]) (Stored [article_a]))
      \<lparr>completions := (\<lambda>k p. if k = 0 then Some ''first'' else None)\<rparr>)
     = Some (Multiple [post_a, post_b, post_c])
   \<and> batch (plain_request None)
        ((sample_world (Multiple [post_a, post_b, post_c]) (Stored [article_a]))
          \<lparr>completions := (\<lambda>k p. if k = 0 then Some ''first'' else None)\<rparr>)
        (Multiple [post_a, post_b, post_c]) = [post_b, post_c]
   \<and> GET (plain_request None)
        ((sample_world (Multiple [post_a, post_b, post_c]) (Stored [article_a]))
          \<lparr>completions := (\<lambda>k p. if k = 0 then Some ''first'' else None)\<rparr>)
     = (\<lparr>status = 500, body = Failure ''Failed to generate article''\<rparr>,
        (sample_world (Multiple [post_a, post_b, post_c]) (Stored [article_a]))
          \<lparr>completions := (\<lambda>k p. if k = 0 then Some ''first'' else None),
            requests := [formatPostData post_b, formatPostData post_c], ticks := 1\<rparr>)"
proof -
  let ?w = "(sample_world (Multiple [post_a, post_b, post_c]) (Stored [article_a]))
      \<lparr>completions := (\<lambda>k p. if k = 0 then Some ''first'' else None)\<rparr>"
  let ?d = "Multiple [post_a, post_b, post_c]"
  let ?r = "plain_request None"
  have sel: "batch ?r ?w ?d = [post_b, post_c]"
    by (simp add: eval_defs)
  have h1: "posts_json ?w = Some ?d" by (simp add: sample_world_def)
  have h2: "1 < length (batch ?r ?w ?d)" by (simp add: sel)
  have h3: "answer ?w (batch ?r ?w ?d) 1 = None" by (simp add: sel answer_def sample_world_def)
  from generation_failure_aborts [OF h1 h2 h3] obtain k where
    k: "k \<le> 1" "answer ?w (batch ?r ?w ?d) k = None"
      "GET ?r ?w = (\<lparr>status = 500, body = Failure ''Failed to generate article''\<rparr>,
         ?w\<lparr>requests := requests ?w @ map formatPostData (take (Suc k) (batch ?r ?w ?d)),
            ticks := ticks ?w + k\<rparr>)"
    by blast
  have "answer ?w (batch ?r ?w ?d) 0 \<noteq> None"
    by (simp add: sel answer_def sample_world_def)
  with k(1,2) have "k = 1" by (cases k) auto
  with k(3) h1 sel show ?thesis
    by (simp add: sample_world_def)
qed

section \<open>Deduplication by title\<close>

lemma set_slice_subset: "set (slice (Some 0) e xs) \<subseteq> set xs"
  by (cases e) (auto simp: slice_from_start dest: in_set_takeD)

lemma batch_unprocessed:
  "p \<in> set (batch r w d) \<Longrightarrow>
   p \<in> set (resolvePosts d) \<and> resolvedTitle p \<notin> originalTitle ` set (existingArticles r w)"
  using set_slice_subset [of "numPosts r" "unprocessedPosts (existingArticles r w) (resolvePosts d)"]
  by (auto simp: batch_def postsToProcess_def unprocessedPosts_def processedTitles_def)

lemma batch_take:
  "numPosts r = Some n \<Longrightarrow> 0 \<le> n \<Longrightarrow>
   batch r w d = take (nat n) (unprocessedPosts (existingArticles r w) (resolvePosts d))"
  by (simp add: batch_def postsToProcess_def slice_from_start)

lemma existingArticles_stored:
  "articles_json w = Stored arts \<Longrightarrow> \<not> forceRegenerate r \<Longrightarrow> existingArticles r w = arts"
  by (simp add: existingArticles_def)

lemma existingArticles_forced: "forceRegenerate r \<Longrightarrow> existingArticles r w = []"
  by (simp add: existingArticles_def)

text \<open>
  Every request leaves the world as it was except for the requests sent, the clock
  readings and, when it succeeds with a non-empty batch, the articles file.
\<close>

lemma GET_outcome:
  assumes "posts_json w = Some d"
  shows "\<exists>k\<le>length (batch r w d).
           requests (snd (GET r w)) = requests w @ map formatPostData (take k (batch r w d))
           \<and> (articles_json (snd (GET r w)) = articles_json w
              \<or> articles_json (snd (GET r w)) =
                   Stored (existingArticles r w
                     @ map (newArticle w (batch r w d)) [0..<length (batch r w d)]))"
proof (cases "batch r w d = []")
  case True
  with GET_nothing_selected [OF assms True] show ?thesis by simp
next
  case False
  show ?thesis
  proof (cases "\<forall>i<length (batch r w d). answer w (batch r w d) i \<noteq> None")
    case True
    from GET_generated [OF assms False True] show ?thesis
      by (intro exI [of _ "length (batch r w d)"]) (simp split: if_splits)
  next
    case False
    then obtain j where "j < length (batch r w d)" "answer w (batch r w d) j = None"
      by blast
    from first_failure [OF this] obtain k where
      k: "k \<le> j" "answer w (batch r w d) k = None" "\<forall>i<k. answer w (batch r w d) i \<noteq> None"
      by blast
    with \<open>j < length (batch r w d)\<close> have lt: "k < length (batch r w d)" by simp
    from GET_generation_failure [OF assms lt k(2,3)] lt show ?thesis
      by (intro exI [of _ "Suc k"]) simp
  qed
qed

lemma newArticle_title: "originalTitle (newArticle w ps i) = resolvedTitle (ps ! i)"
  by (simp add: newArticle_def)

lemma newArticle_author: "originalAuthor (newArticle w ps i) = resolvedAuthor (ps ! i)"
  by (simp add: newArticle_def)

text \<open>
  C1. Without \<^verbatim>\<open>force\<close>, when the articles file already holds an entry whose
  \<open>originalTitle\<close> is \<open>X\<close>: no post whose resolved title is \<open>X\<close> is in the batch, so
  every request sent to the service is for a post with another resolved title, and
  after the request the articles file holds the former articles followed by entries
  whose \<open>originalTitle\<close> is not \<open>X\<close>; the entries titled \<open>X\<close> are those of before.
\<close>

theorem processed_title_not_regenerated:
  assumes "articles_json w = Stored arts"
    and "a \<in> set arts" and "originalTitle a = X"
    and "\<not> forceRegenerate r"
    and "posts_json w = Some d"
  shows "(\<forall>p \<in> set (batch r w d). resolvedTitle p \<noteq> X)
       \<and> (\<exists>sent. requests (snd (GET r w)) = requests w @ map formatPostData sent
               \<and> (\<forall>p \<in> set sent. resolvedTitle p \<noteq> X))
       \<and> (\<exists>fresh. articles_json (snd (GET r w)) = Stored (arts @ fresh)
               \<and> (\<forall>b \<in> set fresh. originalTitle b \<noteq> X))
       \<and> (\<exists>arts'. articles_json (snd (GET r w)) = Stored arts'
               \<and> filter (\<lambda>b. originalTitle b = X) arts' = filter (\<lambda>b. originalTitle b = X) arts)"
proof -
  have existing: "existingArticles r w = arts"
    using assms(1,4) by (rule existingArticles_stored)
  have sel: "\<forall>p \<in> set (batch r w d). resolvedTitle p \<noteq> X"
    using batch_unprocessed [of _ r w d] assms(2,3) existing by force
  from GET_outcome [OF assms(5), of r] obtain k where
    k: "requests (snd (GET r w)) = requests w @ map formatPostData (take k (batch r w d))"
      "articles_json (snd (GET r w)) = articles_json w
         \<or> articles_json (snd (GET r w)) =
            Stored (existingArticles r w
              @ map (newArticle w (batch r w d)) [0..<length (batch r w d)])"
    by blast
  have sent: "\<exists>sent. requests (snd (GET r w)) = requests w @ map formatPostData sent
               \<and> (\<forall>p \<in> set sent. resolvedTitle p \<noteq> X)"
    using k(1) sel by (intro exI [of _ "take k (batch r w d)"]) (auto dest: in_set_takeD)
  have new: "\<forall>b \<in> set (map (newArticle w (batch r w d)) [0..<length (batch r w d)]).
               originalTitle b \<noteq> X"
    using sel by (auto simp: newArticle_title)
  have fresh: "\<exists>fresh. articles_json (snd (GET r w)) = Stored (arts @ fresh)
               \<and> (\<forall>b \<in> set fresh. originalTitle b \<noteq> X)"
    using k(2)
  proof
    assume "articles_json (snd (GET r w)) = articles_json w"
    with assms(1) show ?thesis by (intro exI [of _ "[]"]) simp
  next
    assume "articles_json (snd (GET r w)) =
            Stored (existingArticles r w
              @ map (newArticle w (batch r w d)) [0..<length (batch r w d)])"
    with existing new show ?thesis by blast
  qed
  then obtain fr where fr: "articles_json (snd (GET r w)) = Stored (arts @ fr)"
    "\<forall>b \<in> set fr. originalTitle b \<noteq> X" by blast
  then have "filter (\<lambda>b. originalTitle b = X) (arts @ fr) = filter (\<lambda>b. originalTitle b = X) arts"
    by (simp add: filter_empty_conv)
  with fr(1) have same: "\<exists>arts'. articles_json (snd (GET r w)) = Stored arts'
               \<and> filter (\<lambda>b. originalTitle b = X) arts' = filter (\<lambda>b. originalTitle b = X) arts"
    by blast
  from sel sent fresh same show ?thesis by blast
qed


lemmas run_defs =
  GET_def readPostsFile_def writeArticlesFile_def generateArticle_def now_iso_def caught_def
  formatPostData_def postHeader_def decimal.simps

theorem processed_title_not_regenerated_witness:
  "articles_json (sample_world (Multiple [post_a, post_b]) (Stored [article_a])) = Stored [article_a]
   \<and> article_a \<in> set [article_a] \<and> originalTitle article_a = ''A''
   \<and> \<not> forceRegenerate (plain_request None)
   \<and> posts_json (sample_world (Multiple [post_a, post_b]) (Stored [article_a]))
        = Some (Multiple [post_a, post_b])
   \<and> resolvedTitle post_a = ''A''
   \<and> batch (plain_request None)
         (sample_world (Multiple [post_a, post_b]) (Stored [article_a]))
         (Multiple [post_a, post_b]) = [post_b]
   \<and> resolvedTitle post_b \<noteq> ''A''
   \<and> articles_json (snd (GET (plain_request None)
                   (sample_world (Multiple [post_a, post_b]) (Stored [article_a]))))
        = Stored [article_a,
                  \<lparr>originalTitle = ''B'', originalAuthor = ''bob'',
                   generatedArticle = ''article 0'', timestamp = ''t0''\<rparr>]
   \<and> requests (snd (GET (plain_request None)
                   (sample_world (Multiple [post_a, post_b]) (Stored [article_a]))))
        = [formatPostData post_b]"
proof -
  let ?w = "sample_world (Multiple [post_a, post_b]) (Stored [article_a])"
  have h1: "articles_json ?w = Stored [article_a]" by (simp add: sample_world_def)
  have h2: "article_a \<in> set [article_a]" by simp
  have h3: "originalTitle article_a = ''A''" by (simp add: article_a_def)
  have h4: "\<not> forceRegenerate (plain_request None)"
    by (simp add: forceRegenerate_def plain_request_def)
  have h5: "posts_json ?w = Some (Multiple [post_a, post_b])" by (simp add: sample_world_def)
  have run: "GET (plain_request None) ?w =
      (\<lparr>status = 200, body = Success ''Generated 1 new articles. Total: 2''
          [article_a, \<lparr>originalTitle = ''B'', originalAuthor = ''bob'',
                   generatedArticle = ''article 0'', timestamp = ''t0''\<rparr>]\<rparr>,
       ?w\<lparr>articles_json := Stored [article_a, \<lparr>originalTitle = ''B'', originalAuthor = ''bob'',
                   generatedArticle = ''article 0'', timestamp = ''t0''\<rparr>],
          requests := [formatPostData post_b], ticks := 1\<rparr>)"
    by (simp add: run_defs eval_defs)
  have sel: "batch (plain_request None) ?w (Multiple [post_a, post_b]) = [post_b]"
    by (simp add: eval_defs)
  from processed_title_not_regenerated [OF h1 h2 h3 h4 h5]
  have "\<forall>p \<in> set (batch (plain_request None) ?w (Multiple [post_a, post_b])).
          resolvedTitle p \<noteq> ''A''"
    by blast
  then have other: "resolvedTitle post_b \<noteq> ''A''"
    unfolding sel by simp
  from other sel h1 h2 h3 h4 h5 run show ?thesis
    by (simp add: post_a_def or_else_def)
qed

section \<open>Selection and appending\<close>

text \<open>
  C4 (amended). For a request without \<^verbatim>\<open>force\<close> whose \<^verbatim>\<open>numPosts\<close> is a count \<open>n \<ge> 0\<close>, that
  selects at least one post and whose generation calls and file write all succeed:
  the batch is the first \<open>n\<close> posts (all of them when fewer remain) of the loaded
  posts whose resolved title is not an \<open>originalTitle\<close> of the existing collection, in
  their original order; and the articles file afterwards holds the existing
  collection followed by one new article for each post of the batch, in the order
  of the batch. The response carries the same list.
\<close>

theorem batch_is_prefix_and_result_is_appended:
  assumes "posts_json w = Some d"
    and "\<not> forceRegenerate r"
    and "numPosts r = Some n" and "0 \<le> n"
    and "batch r w d \<noteq> []"
    and "\<forall>i<length (batch r w d). answer w (batch r w d) i \<noteq> None"
    and "writable w"
  shows "batch r w d =
           take (nat n)
             (filter (\<lambda>post. resolvedTitle post \<notin> originalTitle ` set (existingArticles r w))
                (resolvePosts d))
       \<and> length (batch r w d) = min (nat n)
           (length (filter (\<lambda>post. resolvedTitle post \<notin> originalTitle ` set (existingArticles r w))
                (resolvePosts d)))
       \<and> (\<forall>arts. articles_json w = Stored arts \<longrightarrow> existingArticles r w = arts)
       \<and> articles_json (snd (GET r w)) =
           Stored (existingArticles r w
                     @ map (newArticle w (batch r w d)) [0..<length (batch r w d)])
       \<and> body (fst (GET r w)) =
           Success (''Generated '' @ decimal (length (batch r w d)) @ '' new articles. Total: ''
                      @ decimal (length (existingArticles r w) + length (batch r w d)))
             (existingArticles r w
                @ map (newArticle w (batch r w d)) [0..<length (batch r w d)])
       \<and> status (fst (GET r w)) = 200
       \<and> (\<forall>i<length (batch r w d).
             originalTitle (newArticle w (batch r w d) i) = resolvedTitle (batch r w d ! i)
           \<and> originalAuthor (newArticle w (batch r w d) i) = resolvedAuthor (batch r w d ! i)
           \<and> Some (generatedArticle (newArticle w (batch r w d) i)) = answer w (batch r w d) i)"
proof -
  have sel: "batch r w d =
           take (nat n)
             (filter (\<lambda>post. resolvedTitle post \<notin> originalTitle ` set (existingArticles r w))
                (resolvePosts d))"
    using batch_take [OF assms(3,4)] by (simp add: unprocessedPosts_def processedTitles_def)
  have len: "length (batch r w d) = min (nat n)
           (length (filter (\<lambda>post. resolvedTitle post \<notin> originalTitle ` set (existingArticles r w))
                (resolvePosts d)))"
    by (subst sel) (simp add: min.commute)
  have ex: "\<forall>arts. articles_json w = Stored arts \<longrightarrow> existingArticles r w = arts"
    using assms(2) by (simp add: existingArticles_def)
  have gen: "\<forall>i<length (batch r w d).
      Some (generatedArticle (newArticle w (batch r w d) i)) = answer w (batch r w d) i"
    using assms(6) by (auto simp: newArticle_def default_to_def)
  from GET_generated [OF assms(1,5,6)] assms(7) sel len ex gen show ?thesis
    by (simp add: newArticle_title newArticle_author)
qed


theorem batch_is_prefix_and_result_is_appended_witness:
  "posts_json (sample_world (Multiple [post_a, post_b, post_c, post_untitled ''x'']) (Stored [article_a]))
     = Some (Multiple [post_a, post_b, post_c, post_untitled ''x''])
   \<and> \<not> forceRegenerate (plain_request (Some ''2''))
   \<and> numPosts (plain_request (Some ''2'')) = Some 2
   \<and> writable (sample_world (Multiple [post_a, post_b, post_c, post_untitled ''x'']) (Stored [article_a]))
   \<and> batch (plain_request (Some ''2''))
        (sample_world (Multiple [post_a, post_b, post_c, post_untitled ''x'']) (Stored [article_a]))
        (Multiple [post_a, post_b, post_c, post_untitled ''x'']) = [post_b, post_c]
   \<and> articles_json (snd (GET (plain_request (Some ''2''))
        (sample_world (Multiple [post_a, post_b, post_c, post_untitled ''x'']) (Stored [article_a]))))
     = Stored [article_a,
         \<lparr>originalTitle = ''B'', originalAuthor = ''bob'',
          generatedArticle = ''article 0'', timestamp = ''t0''\<rparr>,
         \<lparr>originalTitle = ''C'', originalAuthor = ''Unknown Author'',
          generatedArticle = ''article 1'', timestamp = ''t1''\<rparr>]"
proof -
  let ?d = "Multiple [post_a, post_b, post_c, post_untitled ''x'']"
  let ?w = "sample_world ?d (Stored [article_a])"
  let ?r = "plain_request (Some ''2'')"
  have h1: "posts_json ?w = Some ?d" by (simp add: sample_world_def)
  have h2: "\<not> forceRegenerate ?r" by (simp add: forceRegenerate_def plain_request_def)
  have h3: "numPosts ?r = Some 2" by (simp add: eval_defs)
  have h4: "(0::int) \<le> 2" by simp
  have sel: "batch ?r ?w ?d = [post_b, post_c]" by (simp add: eval_defs)
  have h5: "batch ?r ?w ?d \<noteq> []" by (simp add: sel)
  have h6: "\<forall>i<length (batch ?r ?w ?d). answer ?w (batch ?r ?w ?d) i \<noteq> None"
    by (simp add: sel answer_def sample_world_def service_def)
  have h7: "writable ?w" by (simp add: sample_world_def)
  have arts: "newArticle ?w [post_b, post_c] 0 =
        \<lparr>originalTitle = ''B'', originalAuthor = ''bob'',
          generatedArticle = ''article 0'', timestamp = ''t0''\<rparr>"
    "newArticle ?w [post_b, post_c] (Suc 0) =
         \<lparr>originalTitle = ''C'', originalAuthor = ''Unknown Author'',
          generatedArticle = ''article 1'', timestamp = ''t1''\<rparr>"
    by (simp_all add: eval_defs decimal.simps)
  have ex: "existingArticles ?r ?w = [article_a]" by (simp add: eval_defs)
  from batch_is_prefix_and_result_is_appended [OF h1 h2 h3 h4 h5 h6 h7]
  have "articles_json (snd (GET ?r ?w)) =
           Stored (existingArticles ?r ?w
                     @ map (newArticle ?w (batch ?r ?w ?d)) [0..<length (batch ?r ?w ?d)])"
    by blast
  with h1 h2 h3 h7 sel arts ex show ?thesis by simp
qed

text \<open>
  C4 as stated fails for a negative \<^verbatim>\<open>numPosts\<close>: with three unprocessed posts and
  \<^verbatim>\<open>numPosts=-1\<close> the request processes two posts, which are not the first \<open>-1\<close>.
\<close>

theorem negative_numPosts_batch_counterexample:
  "numPosts (plain_request (Some ''-1'')) = Some (- 1)
   \<and> \<not> forceRegenerate (plain_request (Some ''-1''))
   \<and> batch (plain_request (Some ''-1''))
        (sample_world (Multiple [post_a, post_b, post_c]) Absent)
        (Multiple [post_a, post_b, post_c]) = [post_a, post_b]
   \<and> unprocessedPosts
        (existingArticles (plain_request (Some ''-1''))
           (sample_world (Multiple [post_a, post_b, post_c]) Absent))
        (resolvePosts (Multiple [post_a, post_b, post_c])) = [post_a, post_b, post_c]
   \<and> batch (plain_request (Some ''-1''))
        (sample_world (Multiple [post_a, post_b, post_c]) Absent)
        (Multiple [post_a, post_b, post_c])
      \<noteq> take (nat (- 1))
          (unprocessedPosts
             (existingArticles (plain_request (Some ''-1''))
                (sample_world (Multiple [post_a, post_b, post_c]) Absent))
             (resolvePosts (Multiple [post_a, post_b, post_c])))
   \<and> fst (GET (plain_request (Some ''-1''))
        (sample_world (Multiple [post_a, post_b, post_c]) Absent))
      = \<lparr>status = 200, body = Success ''Generated 2 new articles. Total: 2''
          [\<lparr>originalTitle = ''A'', originalAuthor = ''ann'',
            generatedArticle = ''article 0'', timestamp = ''t0''\<rparr>,
           \<lparr>originalTitle = ''B'', originalAuthor = ''bob'',
            generatedArticle = ''article 1'', timestamp = ''t1''\<rparr>]\<rparr>"
  by (simp add: run_defs eval_defs)

section \<open>Requests that select nothing\<close>

lemma batch_nan: "numPosts r = None \<Longrightarrow> batch r w d = []"
  by (simp add: batch_def postsToProcess_def slice_from_start)

lemma batch_zero: "numPosts r = Some 0 \<Longrightarrow> batch r w d = []"
  by (simp add: batch_def postsToProcess_def slice_from_start)

lemma batch_nothing_left:
  "unprocessedPosts (existingArticles r w) (resolvePosts d) = [] \<Longrightarrow> batch r w d = []"
  by (simp add: batch_def postsToProcess_def slice_def)


text \<open>
  C10 (amended). A request that selects no post answers status 200 with
  \<^verbatim>\<open>success: true\<close>, the fixed message and the existing articles, and leaves the world
  as it was: no request is sent to the generation service and the articles file is
  not written. No post is selected when \<^verbatim>\<open>numPosts\<close> does not parse (\<^verbatim>\<open>NaN\<close>), when it
  parses to zero, or when no loaded post is unprocessed.
\<close>

theorem empty_batch_changes_nothing:
  assumes "posts_json w = Some d"
  shows "(numPosts r = None \<or> numPosts r = Some 0
            \<or> unprocessedPosts (existingArticles r w) (resolvePosts d) = []
          \<longrightarrow> batch r w d = [])
       \<and> (batch r w d = [] \<longrightarrow>
            GET r w =
              (\<lparr>status = 200,
                body = Success
                  ''No new posts to process. All posts have already been generated into articles.''
                  (existingArticles r w)\<rparr>, w)
            \<and> requests (snd (GET r w)) = requests w
            \<and> articles_json (snd (GET r w)) = articles_json w)"
  using GET_nothing_selected [OF assms, of r] batch_nan [of r w d] batch_zero [of r w d]
    batch_nothing_left [of r w d]
  by auto

theorem empty_batch_changes_nothing_witness:
  "posts_json (sample_world (Multiple [post_a, post_b]) Unreadable) = Some (Multiple [post_a, post_b])
   \<and> numPosts (plain_request (Some ''many'')) = None
   \<and> numPosts (plain_request (Some ''0'')) = Some 0
   \<and> GET (plain_request (Some ''many'')) (sample_world (Multiple [post_a, post_b]) Unreadable)
      = (\<lparr>status = 200,
          body = Success
            ''No new posts to process. All posts have already been generated into articles.''
            []\<rparr>, sample_world (Multiple [post_a, post_b]) Unreadable)
   \<and> GET (plain_request (Some ''0'')) (sample_world (Multiple [post_a, post_b]) Unreadable)
      = (\<lparr>status = 200,
          body = Success
            ''No new posts to process. All posts have already been generated into articles.''
            []\<rparr>, sample_world (Multiple [post_a, post_b]) Unreadable)"
proof -
  let ?d = "Multiple [post_a, post_b]"
  let ?w = "sample_world ?d Unreadable"
  have h: "posts_json ?w = Some ?d" by (simp add: sample_world_def)
  have nan: "numPosts (plain_request (Some ''many'')) = None" by (simp add: eval_defs)
  have zero: "numPosts (plain_request (Some ''0'')) = Some 0" by (simp add: eval_defs)
  have ex: "existingArticles r ?w = []" for r by (simp add: existingArticles_def sample_world_def)
  from empty_batch_changes_nothing [OF h, of "plain_request (Some ''many'')"]
    empty_batch_changes_nothing [OF h, of "plain_request (Some ''0'')"] h nan zero ex
  show ?thesis by simp
qed

text \<open>
  C10 as stated fails for a negative \<^verbatim>\<open>numPosts\<close>: with \<^verbatim>\<open>numPosts=-1\<close> and two
  unprocessed posts one post is selected, the service is called and the file written.
\<close>

theorem negative_numPosts_generates_counterexample:
  "numPosts (plain_request (Some ''-1'')) = Some (- 1)
   \<and> batch (plain_request (Some ''-1''))
        (sample_world (Multiple [post_b, post_c]) (Stored [article_a]))
        (Multiple [post_b, post_c]) = [post_b]
   \<and> requests (sample_world (Multiple [post_b, post_c]) (Stored [article_a])) = []
   \<and> requests (snd (GET (plain_request (Some ''-1''))
        (sample_world (Multiple [post_b, post_c]) (Stored [article_a])))) = [formatPostData post_b]
   \<and> articles_json (snd (GET (plain_request (Some ''-1''))
        (sample_world (Multiple [post_b, post_c]) (Stored [article_a]))))
      = Stored [article_a,
          \<lparr>originalTitle = ''B'', originalAuthor = ''bob'',
           generatedArticle = ''article 0'', timestamp = ''t0''\<rparr>]
   \<and> articles_json (snd (GET (plain_request (Some ''-1''))
        (sample_world (Multiple [post_b, post_c]) (Stored [article_a]))))
      \<noteq> articles_json (sample_world (Multiple [post_b, post_c]) (Stored [article_a]))"
  by (simp add: run_defs eval_defs)

section \<open>Two requests in a row\<close>

lemma new_titles:
  "map originalTitle (map (newArticle w ps) [0..<length ps]) = map (\<lambda>p. resolvedTitle p) ps"
proof -
  have "map originalTitle (map (newArticle w ps) [0..<length ps]) =
        map (\<lambda>i. resolvedTitle (ps ! i)) [0..<length ps]"
    by (simp add: newArticle_title)
  also have "\<dots> = map (\<lambda>p. resolvedTitle p) (map (\<lambda>i. ps ! i) [0..<length ps])"
    by (simp only: map_map comp_def)
  also have "\<dots> = map (\<lambda>p. resolvedTitle p) ps"
    by (simp only: map_nth)
  finally show ?thesis .
qed

lemma nothing_left_after_full_batch:
  "unprocessedPosts
     (existing @ map (newArticle w (unprocessedPosts existing posts))
                   [0..<length (unprocessedPosts existing posts)]) posts = []"
proof -
  have "resolvedTitle p \<in> processedTitles
          (existing @ map (newArticle w (unprocessedPosts existing posts))
                   [0..<length (unprocessedPosts existing posts)])"
    if "p \<in> set posts" for p
  proof (cases "resolvedTitle p \<in> processedTitles existing")
    case True
    then show ?thesis by (simp add: processedTitles_def)
  next
    case False
    with that have "p \<in> set (unprocessedPosts existing posts)"
      by (simp add: unprocessedPosts_def)
    then have "resolvedTitle p \<in> set (map (\<lambda>p. resolvedTitle p) (unprocessedPosts existing posts))"
      by simp
    then show ?thesis
      unfolding processedTitles_def map_append new_titles by simp
  qed
  then show ?thesis
    by (simp add: unprocessedPosts_def filter_empty_conv)
qed

text \<open>
  C5 (amended). Two requests in a row without \<^verbatim>\<open>force\<close>, with the same parameters and
  the same posts file: when the batch of the first request is empty, or is all of the
  unprocessed posts and its generation calls and the file write succeed, the first
  request succeeds and the second selects nothing: it answers status 200 with the
  message that there are no new posts and with the collection the first request
  returned, and it leaves the world, the articles file included, as the first
  request left it.
\<close>

theorem second_request_generates_nothing:
  assumes "posts_json w = Some d"
    and "\<not> forceRegenerate r"
    and "batch r w d = []
         \<or> batch r w d = unprocessedPosts (existingArticles r w) (resolvePosts d)"
    and "\<forall>i<length (batch r w d). answer w (batch r w d) i \<noteq> None"
    and "writable w"
  shows "status (fst (GET r w)) = 200
       \<and> posts_json (snd (GET r w)) = posts_json w
       \<and> GET r (snd (GET r w)) =
           (\<lparr>status = 200,
             body = Success
               ''No new posts to process. All posts have already been generated into articles.''
               (articles_of (body (fst (GET r w))))\<rparr>,
            snd (GET r w))"
proof (cases "batch r w d = []")
  case True
  from GET_nothing_selected [OF assms(1) True] show ?thesis by simp
next
  case False
  with assms(3) have full: "batch r w d = unprocessedPosts (existingArticles r w) (resolvePosts d)"
    by simp
  let ?all = "existingArticles r w @ map (newArticle w (batch r w d)) [0..<length (batch r w d)]"
  let ?w1 = "w\<lparr>requests := requests w @ map formatPostData (batch r w d),
              ticks := ticks w + length (batch r w d),
              articles_json := Stored ?all\<rparr>"
  from GET_generated [OF assms(1) False assms(4)] assms(5)
  have first: "GET r w =
      (\<lparr>status = 200,
        body = Success
          (''Generated '' @ decimal (length (batch r w d)) @ '' new articles. Total: ''
             @ decimal (length (existingArticles r w) + length (batch r w d))) ?all\<rparr>, ?w1)"
    by simp
  have posts: "posts_json ?w1 = Some d" using assms(1) by simp
  have existing: "existingArticles r ?w1 = ?all"
    using assms(2) by (simp add: existingArticles_def)
  have "unprocessedPosts ?all (resolvePosts d) = []"
    unfolding full by (rule nothing_left_after_full_batch)
  then have "unprocessedPosts (existingArticles r ?w1) (resolvePosts d) = []"
    by (simp only: existing)
  then have "batch r ?w1 d = []" by (rule batch_nothing_left)
  from GET_nothing_selected [OF posts this] first existing assms(1) show ?thesis
    by simp
qed


theorem second_request_generates_nothing_witness:
  "posts_json (sample_world (Multiple [post_a, post_b]) Absent) = Some (Multiple [post_a, post_b])
   \<and> \<not> forceRegenerate (plain_request None)
   \<and> batch (plain_request None) (sample_world (Multiple [post_a, post_b]) Absent)
        (Multiple [post_a, post_b]) = [post_a, post_b]
   \<and> unprocessedPosts
        (existingArticles (plain_request None) (sample_world (Multiple [post_a, post_b]) Absent))
        (resolvePosts (Multiple [post_a, post_b])) = [post_a, post_b]
   \<and> writable (sample_world (Multiple [post_a, post_b]) Absent)
   \<and> fst (GET (plain_request None) (sample_world (Multiple [post_a, post_b]) Absent))
      = \<lparr>status = 200, body = Success ''Generated 2 new articles. Total: 2''
          [\<lparr>originalTitle = ''A'', originalAuthor = ''ann'',
            generatedArticle = ''article 0'', timestamp = ''t0''\<rparr>,
           \<lparr>originalTitle = ''B'', originalAuthor = ''bob'',
            generatedArticle = ''article 1'', timestamp = ''t1''\<rparr>]\<rparr>
   \<and> fst (GET (plain_request None)
        (snd (GET (plain_request None) (sample_world (Multiple [post_a, post_b]) Absent))))
      = \<lparr>status = 200,
         body = Success
           ''No new posts to process. All posts have already been generated into articles.''
           [\<lparr>originalTitle = ''A'', originalAuthor = ''ann'',
            generatedArticle = ''article 0'', timestamp = ''t0''\<rparr>,
           \<lparr>originalTitle = ''B'', originalAuthor = ''bob'',
            generatedArticle = ''article 1'', timestamp = ''t1''\<rparr>]\<rparr>
   \<and> snd (GET (plain_request None)
        (snd (GET (plain_request None) (sample_world (Multiple [post_a, post_b]) Absent))))
      = snd (GET (plain_request None) (sample_world (Multiple [post_a, post_b]) Absent))"
proof -
  let ?d = "Multiple [post_a, post_b]"
  let ?w = "sample_world ?d Absent"
  let ?r = "plain_request None"
  have h1: "posts_json ?w = Some ?d" by (simp add: sample_world_def)
  have h2: "\<not> forceRegenerate ?r" by (simp add: forceRegenerate_def plain_request_def)
  have sel: "batch ?r ?w ?d = [post_a, post_b]" by (simp add: eval_defs)
  have unp: "unprocessedPosts (existingArticles ?r ?w) (resolvePosts ?d) = [post_a, post_b]"
    by (simp add: eval_defs)
  have h3: "batch ?r ?w ?d = [] \<or> batch ?r ?w ?d = unprocessedPosts (existingArticles ?r ?w) (resolvePosts ?d)"
    unfolding sel unp by simp
  have h4: "\<forall>i<length (batch ?r ?w ?d). answer ?w (batch ?r ?w ?d) i \<noteq> None"
    by (simp add: sel answer_def sample_world_def service_def)
  have h5: "writable ?w" by (simp add: sample_world_def)
  have first: "fst (GET ?r ?w)
      = \<lparr>status = 200, body = Success ''Generated 2 new articles. Total: 2''
          [\<lparr>originalTitle = ''A'', originalAuthor = ''ann'',
            generatedArticle = ''article 0'', timestamp = ''t0''\<rparr>,
           \<lparr>originalTitle = ''B'', originalAuthor = ''bob'',
            generatedArticle = ''article 1'', timestamp = ''t1''\<rparr>]\<rparr>"
    by (simp add: run_defs eval_defs)
  from second_request_generates_nothing [OF h1 h2 h3 h4 h5] first h1 h2 sel unp h5
  show ?thesis by simp
qed

text \<open>
  C5 as stated fails when the first request leaves posts unprocessed: with two posts
  and \<^verbatim>\<open>numPosts=1\<close> the second request generates the second post's article, and its
  collection is longer than the first one's.
\<close>

theorem second_request_continues_counterexample:
  "fst (GET (plain_request (Some ''1'')) (sample_world (Multiple [post_a, post_b]) Absent))
      = \<lparr>status = 200, body = Success ''Generated 1 new articles. Total: 1''
          [\<lparr>originalTitle = ''A'', originalAuthor = ''ann'',
            generatedArticle = ''article 0'', timestamp = ''t0''\<rparr>]\<rparr>
   \<and> posts_json (snd (GET (plain_request (Some ''1''))
          (sample_world (Multiple [post_a, post_b]) Absent)))
      = posts_json (sample_world (Multiple [post_a, post_b]) Absent)
   \<and> fst (GET (plain_request (Some ''1''))
        (snd (GET (plain_request (Some ''1'')) (sample_world (Multiple [post_a, post_b]) Absent))))
      = \<lparr>status = 200, body = Success ''Generated 1 new articles. Total: 2''
          [\<lparr>originalTitle = ''A'', originalAuthor = ''ann'',
            generatedArticle = ''article 0'', timestamp = ''t0''\<rparr>,
           \<lparr>originalTitle = ''B'', originalAuthor = ''bob'',
            generatedArticle = ''article 1'', timestamp = ''t1''\<rparr>]\<rparr>"
proof -
  let ?w = "sample_world (Multiple [post_a, post_b]) Absent"
  let ?r = "plain_request (Some ''1'')"
  have first: "GET ?r ?w =
      (\<lparr>status = 200, body = Success ''Generated 1 new articles. Total: 1''
          [\<lparr>originalTitle = ''A'', originalAuthor = ''ann'',
            generatedArticle = ''article 0'', timestamp = ''t0''\<rparr>]\<rparr>,
       ?w\<lparr>articles_json := Stored [\<lparr>originalTitle = ''A'', originalAuthor = ''ann'',
            generatedArticle = ''article 0'', timestamp = ''t0''\<rparr>],
          requests := [formatPostData post_a], ticks := 1\<rparr>)"
    by (simp add: run_defs eval_defs)
  show ?thesis
    unfolding first by (simp add: run_defs eval_defs)
qed

section \<open>Forced regeneration\<close>

lemma unprocessedPosts_none_existing: "unprocessedPosts [] posts = posts"
  by (simp add: unprocessedPosts_def processedTitles_def)

text \<open>
  C2 (amended). With \<^verbatim>\<open>force=true\<close> the existing articles are loaded as the empty array
  whatever the file holds, so every loaded post counts as unprocessed and the batch is
  the slice of the loaded posts themselves, posts with stored articles included. When
  the batch is not empty and its generation calls and the file write succeed, the
  collection returned and written to the file is the newly generated articles only,
  one for each post of the batch in order: the former content of the file is
  replaced, and the titles of the collection are the resolved titles of the batch.
\<close>

theorem force_regenerates_from_scratch:
  assumes "posts_json w = Some d"
    and "force_param r = Some ''true''"
    and "batch r w d \<noteq> []"
    and "\<forall>i<length (batch r w d). answer w (batch r w d) i \<noteq> None"
    and "writable w"
  shows "existingArticles r w = []
       \<and> unprocessedPosts (existingArticles r w) (resolvePosts d) = resolvePosts d
       \<and> batch r w d = slice (Some 0) (numPosts r) (resolvePosts d)
       \<and> status (fst (GET r w)) = 200
       \<and> articles_of (body (fst (GET r w))) =
           map (newArticle w (batch r w d)) [0..<length (batch r w d)]
       \<and> articles_json (snd (GET r w)) =
           Stored (map (newArticle w (batch r w d)) [0..<length (batch r w d)])
       \<and> map originalTitle (map (newArticle w (batch r w d)) [0..<length (batch r w d)])
           = map (\<lambda>p. resolvedTitle p) (batch r w d)"
proof -
  have forced: "forceRegenerate r" using assms(2) by (simp add: forceRegenerate_def)
  have existing: "existingArticles r w = []" using forced by (rule existingArticles_forced)
  have sel: "batch r w d = slice (Some 0) (numPosts r) (resolvePosts d)"
    by (simp add: batch_def postsToProcess_def existing unprocessedPosts_none_existing)
  from GET_generated [OF assms(1,3,4)] assms(5) existing
  have run: "status (fst (GET r w)) = 200
       \<and> articles_of (body (fst (GET r w))) =
           map (newArticle w (batch r w d)) [0..<length (batch r w d)]
       \<and> articles_json (snd (GET r w)) =
           Stored (map (newArticle w (batch r w d)) [0..<length (batch r w d)])"
    by simp
  have all: "unprocessedPosts (existingArticles r w) (resolvePosts d) = resolvePosts d"
    by (simp add: existing unprocessedPosts_none_existing)
  from existing all sel run new_titles [of w "batch r w d"] show ?thesis
    by blast
qed

theorem force_regenerates_from_scratch_witness:
  "posts_json (sample_world (Multiple [post_a, post_b]) (Stored [article_a]))
     = Some (Multiple [post_a, post_b])
   \<and> force_param (force_request None) = Some ''true''
   \<and> batch (force_request None) (sample_world (Multiple [post_a, post_b]) (Stored [article_a]))
        (Multiple [post_a, post_b]) = [post_a, post_b]
   \<and> writable (sample_world (Multiple [post_a, post_b]) (Stored [article_a]))
   \<and> articles_json (snd (GET (force_request None)
        (sample_world (Multiple [post_a, post_b]) (Stored [article_a]))))
      = Stored
          [\<lparr>originalTitle = ''A'', originalAuthor = ''ann'',
            generatedArticle = ''article 0'', timestamp = ''t0''\<rparr>,
           \<lparr>originalTitle = ''B'', originalAuthor = ''bob'',
            generatedArticle = ''article 1'', timestamp = ''t1''\<rparr>]"
proof -
  let ?d = "Multiple [post_a, post_b]"
  let ?w = "sample_world ?d (Stored [article_a])"
  let ?r = "force_request None"
  have h1: "posts_json ?w = Some ?d" by (simp add: sample_world_def)
  have h2: "force_param ?r = Some ''true''" by (simp add: force_request_def)
  have sel: "batch ?r ?w ?d = [post_a, post_b]" by (simp add: eval_defs force_request_def)
  have h3: "batch ?r ?w ?d \<noteq> []" by (simp add: sel)
  have h4: "\<forall>i<length (batch ?r ?w ?d). answer ?w (batch ?r ?w ?d) i \<noteq> None"
    by (simp add: sel answer_def sample_world_def service_def)
  have h5: "writable ?w" by (simp add: sample_world_def)
  have arts: "newArticle ?w [post_a, post_b] 0 =
        \<lparr>originalTitle = ''A'', originalAuthor = ''ann'',
          generatedArticle = ''article 0'', timestamp = ''t0''\<rparr>"
    "newArticle ?w [post_a, post_b] (Suc 0) =
         \<lparr>originalTitle = ''B'', originalAuthor = ''bob'',
          generatedArticle = ''article 1'', timestamp = ''t1''\<rparr>"
    by (simp_all add: eval_defs decimal.simps)
  from force_regenerates_from_scratch [OF h1 h2 h3 h4 h5]
  have "articles_json (snd (GET ?r ?w)) =
           Stored (map (newArticle ?w (batch ?r ?w ?d)) [0..<length (batch ?r ?w ?d)])"
    by blast
  with h1 h2 h5 sel arts show ?thesis by simp
qed

text \<open>
  C2 as stated fails: the collection persisted under \<^verbatim>\<open>force=true\<close> is not the
  existing collection combined with the regenerated articles. With an article titled
  \<open>A\<close> stored and the post \<open>A\<close> as input, the file afterwards holds the regenerated
  article alone: the stored one is gone and no title occurs twice.
\<close>

theorem force_drops_stored_articles_counterexample:
  "articles_json (sample_world (Single post_a) (Stored [article_a])) = Stored [article_a]
   \<and> articles_json (snd (GET (force_request None)
        (sample_world (Single post_a) (Stored [article_a]))))
      = Stored [\<lparr>originalTitle = ''A'', originalAuthor = ''ann'',
                 generatedArticle = ''article 0'', timestamp = ''t0''\<rparr>]
   \<and> articles_json (snd (GET (force_request None)
        (sample_world (Single post_a) (Stored [article_a]))))
      \<noteq> Stored ([article_a] @
                 [\<lparr>originalTitle = ''A'', originalAuthor = ''ann'',
                   generatedArticle = ''article 0'', timestamp = ''t0''\<rparr>])
   \<and> fst (GET (force_request None) (sample_world (Single post_a) (Stored [article_a])))
      = \<lparr>status = 200, body = Success ''Generated 1 new articles. Total: 1''
          [\<lparr>originalTitle = ''A'', originalAuthor = ''ann'',
            generatedArticle = ''article 0'', timestamp = ''t0''\<rparr>]\<rparr>"
  by (simp add: run_defs eval_defs force_request_def)

section \<open>Document shape, defaults and repeated titles\<close>

text \<open>
  C7. The posts that the handler works on are those of the resolution policy: a
  document that is an object is one post, whether it has a non-empty title, a text, or
  neither, and a document that is a sequence is used as it is. The handler tests the
  text for being non-empty where the policy tests for its presence; an object with an
  empty text is wrapped by the last branch, with the same result.
\<close>

theorem resolvePosts_policy:
  "resolvePosts postData = resolution_policy postData
   \<and> resolvePosts (Single post) = [post]
   \<and> resolvePosts (Multiple posts) = posts"
  by (cases postData) simp_all

lemma nth_new_articles:
  "i < length ps \<Longrightarrow> map (newArticle w ps) [0..<length ps] ! i = newArticle w ps i"
  by simp

lemma in_unprocessed_iff:
  "p \<in> set (unprocessedPosts existing posts) \<longleftrightarrow>
     p \<in> set posts \<and> resolvedTitle p \<notin> originalTitle ` set existing"
  by (auto simp: unprocessedPosts_def processedTitles_def)

text \<open>
  C8. In a request that generates articles, the article recorded for a post of the
  batch has the post's title as \<open>originalTitle\<close>, or \<^verbatim>\<open>Untitled Post\<close> when the post has no
  title field, and the post's author as \<open>originalAuthor\<close>, or \<^verbatim>\<open>Unknown Author\<close> when it has
  no author field. The title so resolved is the key of deduplication: a loaded post
  is unprocessed exactly when its resolved title is not an \<open>originalTitle\<close> of the
  existing collection, so a post without a title field is unprocessed exactly when no
  existing article is titled \<^verbatim>\<open>Untitled Post\<close>.
\<close>

theorem missing_fields_defaults:
  assumes "posts_json w = Some d"
    and "batch r w d \<noteq> []"
    and "\<forall>i<length (batch r w d). answer w (batch r w d) i \<noteq> None"
    and "writable w"
  shows "\<exists>new. articles_json (snd (GET r w)) = Stored (existingArticles r w @ new)
           \<and> length new = length (batch r w d)
           \<and> (\<forall>i<length (batch r w d).
                 (post_title (batch r w d ! i) = None
                    \<longrightarrow> originalTitle (new ! i) = ''Untitled Post'')
               \<and> (post_author (batch r w d ! i) = None
                    \<longrightarrow> originalAuthor (new ! i) = ''Unknown Author'')
               \<and> (\<forall>t. post_title (batch r w d ! i) = Some t \<and> t \<noteq> []
                    \<longrightarrow> originalTitle (new ! i) = t)
               \<and> (\<forall>a. post_author (batch r w d ! i) = Some a \<and> a \<noteq> []
                    \<longrightarrow> originalAuthor (new ! i) = a)
               \<and> originalTitle (new ! i) = resolvedTitle (batch r w d ! i)
               \<and> originalTitle (new ! i) \<notin> originalTitle ` set (existingArticles r w))
           \<and> (\<forall>p \<in> set (resolvePosts d).
                 (p \<in> set (unprocessedPosts (existingArticles r w) (resolvePosts d))
                    \<longleftrightarrow> resolvedTitle p \<notin> originalTitle ` set (existingArticles r w))
               \<and> (post_title p = None \<longrightarrow>
                    (p \<in> set (unprocessedPosts (existingArticles r w) (resolvePosts d))
                      \<longleftrightarrow> ''Untitled Post'' \<notin> originalTitle ` set (existingArticles r w))))"
proof -
  let ?new = "map (newArticle w (batch r w d)) [0..<length (batch r w d)]"
  from GET_generated [OF assms(1,2,3)] assms(4)
  have stored: "articles_json (snd (GET r w)) = Stored (existingArticles r w @ ?new)"
    by simp
  have fields: "(post_title (batch r w d ! i) = None
                    \<longrightarrow> originalTitle (?new ! i) = ''Untitled Post'')
               \<and> (post_author (batch r w d ! i) = None
                    \<longrightarrow> originalAuthor (?new ! i) = ''Unknown Author'')
               \<and> (\<forall>t. post_title (batch r w d ! i) = Some t \<and> t \<noteq> []
                    \<longrightarrow> originalTitle (?new ! i) = t)
               \<and> (\<forall>a. post_author (batch r w d ! i) = Some a \<and> a \<noteq> []
                    \<longrightarrow> originalAuthor (?new ! i) = a)
               \<and> originalTitle (?new ! i) = resolvedTitle (batch r w d ! i)
               \<and> originalTitle (?new ! i) \<notin> originalTitle ` set (existingArticles r w)"
    if "i < length (batch r w d)" for i
  proof -
    from that have "batch r w d ! i \<in> set (batch r w d)" by simp
    from batch_unprocessed [OF this]
    have "resolvedTitle (batch r w d ! i) \<notin> originalTitle ` set (existingArticles r w)"
      by simp
    with that show ?thesis
      by (simp add: nth_new_articles newArticle_title newArticle_author or_else_def del: nth_map)
  qed
  have key: "\<forall>p \<in> set (resolvePosts d).
                 (p \<in> set (unprocessedPosts (existingArticles r w) (resolvePosts d))
                    \<longleftrightarrow> resolvedTitle p \<notin> originalTitle ` set (existingArticles r w))
               \<and> (post_title p = None \<longrightarrow>
                    (p \<in> set (unprocessedPosts (existingArticles r w) (resolvePosts d))
                      \<longleftrightarrow> ''Untitled Post'' \<notin> originalTitle ` set (existingArticles r w)))"
    by (simp add: in_unprocessed_iff or_else_def)
  have len: "length ?new = length (batch r w d)" by simp
  from fields have each: "\<forall>i<length (batch r w d).
                 (post_title (batch r w d ! i) = None
                    \<longrightarrow> originalTitle (?new ! i) = ''Untitled Post'')
               \<and> (post_author (batch r w d ! i) = None
                    \<longrightarrow> originalAuthor (?new ! i) = ''Unknown Author'')
               \<and> (\<forall>t. post_title (batch r w d ! i) = Some t \<and> t \<noteq> []
                    \<longrightarrow> originalTitle (?new ! i) = t)
               \<and> (\<forall>a. post_author (batch r w d ! i) = Some a \<and> a \<noteq> []
                    \<longrightarrow> originalAuthor (?new ! i) = a)
               \<and> originalTitle (?new ! i) = resolvedTitle (batch r w d ! i)
               \<and> originalTitle (?new ! i) \<notin> originalTitle ` set (existingArticles r w)"
    by blast
  show ?thesis
    by (rule exI [of _ ?new]) (intro conjI stored len each key)
qed


theorem missing_fields_defaults_witness:
  "posts_json (sample_world (Single (post_untitled ''x'')) Absent) = Some (Single (post_untitled ''x''))
   \<and> batch (plain_request None) (sample_world (Single (post_untitled ''x'')) Absent)
        (Single (post_untitled ''x'')) = [post_untitled ''x'']
   \<and> post_title (post_untitled ''x'') = None \<and> post_author (post_untitled ''x'') = None
   \<and> writable (sample_world (Single (post_untitled ''x'')) Absent)
   \<and> articles_json (snd (GET (plain_request None)
        (sample_world (Single (post_untitled ''x'')) Absent)))
      = Stored [\<lparr>originalTitle = ''Untitled Post'', originalAuthor = ''Unknown Author'',
                 generatedArticle = ''article 0'', timestamp = ''t0''\<rparr>]
   \<and> (\<exists>new. articles_json (snd (GET (plain_request None)
                 (sample_world (Single (post_untitled ''x'')) Absent))) = Stored new
           \<and> originalTitle (new ! 0) = ''Untitled Post''
           \<and> originalAuthor (new ! 0) = ''Unknown Author'')"
proof -
  let ?d = "Single (post_untitled ''x'')"
  let ?w = "sample_world ?d Absent"
  let ?r = "plain_request None"
  have h1: "posts_json ?w = Some ?d" by (simp add: sample_world_def)
  have sel: "batch ?r ?w ?d = [post_untitled ''x'']" by (simp add: eval_defs)
  have h2: "batch ?r ?w ?d \<noteq> []" by (simp add: sel)
  have h3: "\<forall>i<length (batch ?r ?w ?d). answer ?w (batch ?r ?w ?d) i \<noteq> None"
    by (simp add: sel answer_def sample_world_def service_def)
  have h4: "writable ?w" by (simp add: sample_world_def)
  have none: "post_title (post_untitled ''x'') = None" "post_author (post_untitled ''x'') = None"
    by (simp_all add: post_untitled_def)
  have ex: "existingArticles ?r ?w = []" by (simp add: eval_defs)
  have run: "articles_json (snd (GET ?r ?w))
      = Stored [\<lparr>originalTitle = ''Untitled Post'', originalAuthor = ''Unknown Author'',
                 generatedArticle = ''article 0'', timestamp = ''t0''\<rparr>]"
    by (simp add: run_defs eval_defs)
  from missing_fields_defaults [OF h1 h2 h3 h4] obtain new where
    new: "articles_json (snd (GET ?r ?w)) = Stored (existingArticles ?r ?w @ new)"
      "\<forall>i<length (batch ?r ?w ?d).
         (post_title (batch ?r ?w ?d ! i) = None \<longrightarrow> originalTitle (new ! i) = ''Untitled Post'')
         \<and> (post_author (batch ?r ?w ?d ! i) = None \<longrightarrow> originalAuthor (new ! i) = ''Unknown Author'')"
    by blast
  from new(2) none have "originalTitle (new ! 0) = ''Untitled Post''"
    "originalAuthor (new ! 0) = ''Unknown Author''"
    by (simp_all add: sel)
  with new(1) ex have "\<exists>new. articles_json (snd (GET ?r ?w)) = Stored new
           \<and> originalTitle (new ! 0) = ''Untitled Post''
           \<and> originalAuthor (new ! 0) = ''Unknown Author''"
    by simp
  with h1 sel none h4 run show ?thesis by simp
qed

lemma upt_from_two: "2 \<le> n \<Longrightarrow> [0..<n] = 0 # 1 # [2..<n]"
  by (simp add: upt_rec [of 0] upt_rec [of 1] upt_rec [of "Suc 0"] numeral_2_eq_2)

text \<open>
  C9. The batch is chosen against the titles of the existing collection alone; the
  articles generated during the request take no part in the choice. So when the
  loaded posts begin with two posts of the same resolved title that no existing
  article bears, and \<^verbatim>\<open>numPosts\<close> is at least 2, both are in the batch, and a request
  whose generation calls and file write succeed writes two new entries with the same
  \<open>originalTitle\<close> to the file.
\<close>

theorem same_title_twice_in_one_request:
  assumes "posts_json w = Some d"
    and "resolvePosts d = p # q # rest"
    and "resolvedTitle p = resolvedTitle q"
    and "resolvedTitle p \<notin> originalTitle ` set (existingArticles r w)"
    and "numPosts r = Some n" and "2 \<le> n"
    and "\<forall>i<length (batch r w d). answer w (batch r w d) i \<noteq> None"
    and "writable w"
  shows "batch r w d =
           slice (Some 0) (numPosts r)
             (filter (\<lambda>post. resolvedTitle post \<notin> originalTitle ` set (existingArticles r w))
                (resolvePosts d))
       \<and> (\<exists>others. batch r w d = p # q # others)
       \<and> articles_json (snd (GET r w)) =
           Stored (existingArticles r w
                     @ newArticle w (batch r w d) 0 # newArticle w (batch r w d) 1
                     # map (newArticle w (batch r w d)) [2..<length (batch r w d)])
       \<and> originalTitle (newArticle w (batch r w d) 0) = resolvedTitle p
       \<and> originalTitle (newArticle w (batch r w d) 1) = resolvedTitle p"
proof -
  let ?keep = "\<lambda>post. resolvedTitle post \<notin> originalTitle ` set (existingArticles r w)"
  have by_existing: "batch r w d = slice (Some 0) (numPosts r) (filter ?keep (resolvePosts d))"
    by (simp add: batch_def postsToProcess_def unprocessedPosts_def processedTitles_def)
  have "batch r w d = take (nat n) (filter ?keep (resolvePosts d))"
    using batch_take [OF assms(5)] assms(6)
    by (simp add: unprocessedPosts_def processedTitles_def)
  also have "filter ?keep (resolvePosts d) = p # q # filter ?keep rest"
    using assms(2,3,4) by simp
  also have "take (nat n) (p # q # filter ?keep rest) = p # q # take (nat n - 2) (filter ?keep rest)"
    using assms(6) by (cases "nat n"; cases "nat n - 1") (auto simp: numeral_2_eq_2)
  finally have sel: "batch r w d = p # q # take (nat n - 2) (filter ?keep rest)" .
  then have nonempty: "batch r w d \<noteq> []" and two: "2 \<le> length (batch r w d)"
    by simp_all
  from GET_generated [OF assms(1) nonempty assms(7)] assms(8)
  have "articles_json (snd (GET r w)) =
          Stored (existingArticles r w
                    @ map (newArticle w (batch r w d)) [0..<length (batch r w d)])"
    by simp
  then have stored: "articles_json (snd (GET r w)) =
           Stored (existingArticles r w
                     @ newArticle w (batch r w d) 0 # newArticle w (batch r w d) 1
                     # map (newArticle w (batch r w d)) [2..<length (batch r w d)])"
    by (simp only: upt_from_two [OF two] list.map)
  have t0: "originalTitle (newArticle w (batch r w d) 0) = resolvedTitle p"
    by (subst newArticle_title) (simp add: sel)
  have t1: "originalTitle (newArticle w (batch r w d) 1) = resolvedTitle p"
    by (subst newArticle_title) (simp add: sel assms(3))
  from sel have others: "\<exists>others. batch r w d = p # q # others" by blast
  show ?thesis
    by (intro conjI by_existing others stored t0 t1)
qed

theorem same_title_twice_in_one_request_witness:
  "posts_json (sample_world (Multiple [post_untitled ''x'', post_untitled ''y'']) (Stored [article_a]))
     = Some (Multiple [post_untitled ''x'', post_untitled ''y''])
   \<and> resolvedTitle (post_untitled ''x'') = ''Untitled Post''
   \<and> resolvedTitle (post_untitled ''y'') = ''Untitled Post''
   \<and> numPosts (plain_request (Some ''2'')) = Some 2
   \<and> articles_json (snd (GET (plain_request (Some ''2''))
        (sample_world (Multiple [post_untitled ''x'', post_untitled ''y'']) (Stored [article_a]))))
      = Stored [article_a,
          \<lparr>originalTitle = ''Untitled Post'', originalAuthor = ''Unknown Author'',
           generatedArticle = ''article 0'', timestamp = ''t0''\<rparr>,
          \<lparr>originalTitle = ''Untitled Post'', originalAuthor = ''Unknown Author'',
           generatedArticle = ''article 1'', timestamp = ''t1''\<rparr>]"
proof -
  let ?d = "Multiple [post_untitled ''x'', post_untitled ''y'']"
  let ?w = "sample_world ?d (Stored [article_a])"
  let ?r = "plain_request (Some ''2'')"
  have h1: "posts_json ?w = Some ?d" by (simp add: sample_world_def)
  have h2: "resolvePosts ?d = post_untitled ''x'' # post_untitled ''y'' # []" by simp
  have tx: "resolvedTitle (post_untitled ''x'') = ''Untitled Post''"
    and ty: "resolvedTitle (post_untitled ''y'') = ''Untitled Post''"
    by (simp_all add: post_untitled_def or_else_def)
  have h3: "resolvedTitle (post_untitled ''x'') = resolvedTitle (post_untitled ''y'')"
    by (simp only: tx ty)
  have ex: "existingArticles ?r ?w = [article_a]" by (simp add: eval_defs)
  have h4: "resolvedTitle (post_untitled ''x'') \<notin> originalTitle ` set (existingArticles ?r ?w)"
    unfolding ex tx by (simp add: article_a_def)
  have h5: "numPosts ?r = Some 2" by (simp add: eval_defs)
  have h6: "(2::int) \<le> 2" by simp
  have sel: "batch ?r ?w ?d = [post_untitled ''x'', post_untitled ''y'']"
    by (simp add: eval_defs)
  have h7: "\<forall>i<length (batch ?r ?w ?d). answer ?w (batch ?r ?w ?d) i \<noteq> None"
    by (simp add: sel answer_def sample_world_def service_def)
  have h8: "writable ?w" by (simp add: sample_world_def)
  have arts: "newArticle ?w [post_untitled ''x'', post_untitled ''y''] 0 =
        \<lparr>originalTitle = ''Untitled Post'', originalAuthor = ''Unknown Author'',
          generatedArticle = ''article 0'', timestamp = ''t0''\<rparr>"
    "newArticle ?w [post_untitled ''x'', post_untitled ''y''] 1 =
         \<lparr>originalTitle = ''Untitled Post'', originalAuthor = ''Unknown Author'',
          generatedArticle = ''article 1'', timestamp = ''t1''\<rparr>"
    by (simp_all add: eval_defs decimal.simps)
  from same_title_twice_in_one_request [OF h1 h2 h3 h4 h5 h6 h7 h8]
  have "articles_json (snd (GET ?r ?w)) =
           Stored (existingArticles ?r ?w
                     @ newArticle ?w (batch ?r ?w ?d) 0 # newArticle ?w (batch ?r ?w ?d) 1
                     # map (newArticle ?w (batch ?r ?w ?d)) [2..<length (batch ?r ?w ?d)])"
    by blast
  then have "articles_json (snd (GET ?r ?w)) =
      Stored [article_a,
          \<lparr>originalTitle = ''Untitled Post'', originalAuthor = ''Unknown Author'',
           generatedArticle = ''article 0'', timestamp = ''t0''\<rparr>,
          \<lparr>originalTitle = ''Untitled Post'', originalAuthor = ''Unknown Author'',
           generatedArticle = ''article 1'', timestamp = ''t1''\<rparr>]"
    unfolding sel ex arts by simp
  with h1 tx ty h5 show ?thesis by simp
qed

end
